theory Spec2Isabelle
  imports Main
begin

section \<open>The video page of the dashboard: format selection and download\<close>

text \<open>
  A shallow embedding of the video page under \<^verbatim>\<open>src/dashboard/pages\<close>: the class
  \<^verbatim>\<open>FormatSelector\<close> (the format callback handed to the extraction library) and the
  parts of \<^verbatim>\<open>Downloader\<close> that decide whether a download is refused.

  Python strings are modelled as \<open>string\<close>; the labels and URLs of interest are ASCII
  (the pattern \<^verbatim>\<open>\d\<close> also accepts decimal digits of other scripts, which a
  \<open>char\<close> cannot hold).
  A format dictionary of the library is a record of the six keys the code reads, as the
  data model of the specification has it; a dictionary that lacks one of them is outside
  the model.
  Every \<^verbatim>\<open>raise\<close> of the source and every built-in that raises is a branch that
  returns \<open>Inl\<close> of the exception.
\<close>

subsection \<open>Exceptions\<close>

text \<open>
  The exceptions the modelled code can raise, with the message where the source or the
  interpreter gives one. \<open>StopIteration\<close> is what \<^verbatim>\<open>next\<close> raises on an
  exhausted generator expression. It never leaves \<^verbatim>\<open>parser\<close>: that function is a
  generator, and the interpreter replaces a StopIteration that leaves the body of a
  generator by \<open>RuntimeError\<close> with the message \<^verbatim>\<open>generator raised StopIteration\<close>.
  That RuntimeError is the failure the specification calls NoMatchingFormatError.
  \<open>ValueError\<close> with the message of line 149 is the specification's
  UnavailableExtensionError, with the message of line 301 its InvalidUrlError;
  \<open>DownloadError\<close> is its DownloadFailedError.
\<close>

datatype error =
    ValueError string
  | StopIteration
  | RuntimeError string
  | KeyError string
  | DownloadError string

subsection \<open>Data\<close>

record StreamFormat =
  format_id :: string
  vcodec :: string
  acodec :: string
  ext :: string
  format_note :: string
  protocol :: string

text \<open>The download context: a dictionary whose key \<^verbatim>\<open>formats\<close> may be absent.\<close>

record ctx =
  formats :: "StreamFormat list option"

text \<open>\<^verbatim>\<open>ctx.get("formats", [])\<close>\<close>

definition ctx_get_formats :: "ctx \<Rightarrow> StreamFormat list" where
  "ctx_get_formats c = (case formats c of None \<Rightarrow> [] | Some fs \<Rightarrow> fs)"

text \<open>
  The dictionary the parser yields. \<^verbatim>\<open>requested_formats\<close> is the two-element list
  \<^verbatim>\<open>[video, audio]\<close>, kept as a pair.
\<close>

record SelectionResult =
  sel_format_id :: string
  sel_ext :: string
  requested_formats :: "StreamFormat \<times> StreamFormat"
  sel_protocol :: string

record FormatSelector =
  extension :: string

subsection \<open>Class constants\<close>

definition EXTENSIONS_video :: "string list" where
  "EXTENSIONS_video = [''mp4'', ''webm'']"

definition EXTENSIONS_audio :: "string list" where
  "EXTENSIONS_audio = [''mp3'', ''m4a'', ''webm'', ''wav'']"

definition EXTENSIONS :: "(string \<times> string list) list" where
  "EXTENSIONS = [(''video'', EXTENSIONS_video), (''audio'', EXTENSIONS_audio)]"

definition RESOLUTIONS :: "string list" where
  "RESOLUTIONS = [''1080p'', ''720p'', ''480p'', ''360p'', ''240p'', ''144p'']"

definition MERGE :: "(string \<times> string) list" where
  "MERGE = [(''mp4'', ''m4a''), (''webm'', ''webm'')]"

text \<open>\<^verbatim>\<open>self.MERGE[key]\<close>: a missing key raises KeyError.\<close>

definition MERGE_getitem :: "string \<Rightarrow> error + string" where
  "MERGE_getitem k = (case map_of MERGE k of None \<Rightarrow> Inl (KeyError k) | Some v \<Rightarrow> Inr v)"

subsection \<open>FormatSelector\<close>

text \<open>\<^verbatim>\<open>__init__(self, extension="")\<close>: line 83 assigns the literal \<^verbatim>\<open>""\<close>.\<close>

definition FormatSelector_init :: "string \<Rightarrow> FormatSelector" where
  "FormatSelector_init extension_arg = \<lparr>extension = ''''\<rparr>"

text \<open>
  \<^verbatim>\<open>REGEX_INT = re.compile("\d")\<close> and \<^verbatim>\<open>REGEX_INT.match(value)\<close>: one decimal
  digit at the start of the string; \<^verbatim>\<open>int(result.group())\<close> is that digit.
\<close>

definition digit_value :: "char \<Rightarrow> int option" where
  "digit_value c = map_of
     [(CHR ''0'', 0), (CHR ''1'', 1), (CHR ''2'', 2), (CHR ''3'', 3), (CHR ''4'', 4),
      (CHR ''5'', 5), (CHR ''6'', 6), (CHR ''7'', 7), (CHR ''8'', 8), (CHR ''9'', 9)] c"

fun get_positive_int :: "string \<Rightarrow> int" where
  "get_positive_int [] = 0"
| "get_positive_int (c # cs) = (case digit_value c of Some d \<Rightarrow> d | None \<Rightarrow> 0)"

text \<open>
  \<^verbatim>\<open>max(iterable, key=f)\<close>: the running maximum is replaced only by a strictly
  greater key, so the first item with the greatest key is returned; an empty iterable
  raises ValueError.
\<close>

fun max_key :: "('a \<Rightarrow> int) \<Rightarrow> 'a \<Rightarrow> 'a list \<Rightarrow> 'a" where
  "max_key key best [] = best"
| "max_key key best (x # xs) = max_key key (if key best < key x then x else best) xs"

definition py_max :: "('a \<Rightarrow> int) \<Rightarrow> 'a list \<Rightarrow> error + 'a" where
  "py_max key xs =
     (case xs of
        [] \<Rightarrow> Inl (ValueError ''max() arg is an empty sequence'')
      | x # rest \<Rightarrow> Inr (max_key key x rest))"

definition get_highest_available_quality :: "StreamFormat list \<Rightarrow> error + string" where
  "get_highest_available_quality fs = py_max get_positive_int (map format_note fs)"

text \<open>\<^verbatim>\<open>next(f for f in formats if cond)\<close>\<close>

definition py_next :: "('a \<Rightarrow> bool) \<Rightarrow> 'a list \<Rightarrow> error + 'a" where
  "py_next cond xs = (case find cond xs of None \<Rightarrow> Inl StopIteration | Some x \<Rightarrow> Inr x)"

definition retrieve_video_format ::
  "FormatSelector \<Rightarrow> StreamFormat list \<Rightarrow> string \<Rightarrow> string \<Rightarrow> error + StreamFormat" where
  "retrieve_video_format self fs quality extension_arg =
     (let e = (if extension_arg = [] then extension self else extension_arg) in
      py_next
        (\<lambda>f. vcodec f \<noteq> ''none''
           \<and> acodec f = ''none''
           \<and> (if e \<noteq> [] then ext f = e else True)
           \<and> format_note f = quality)
        fs)"

definition retrieve_audio_format ::
  "FormatSelector \<Rightarrow> StreamFormat list \<Rightarrow> string \<Rightarrow> error + StreamFormat" where
  "retrieve_audio_format self fs extension_arg =
     (let e = (if extension_arg = [] then extension self else extension_arg) in
      py_next
        (\<lambda>f. vcodec f = ''none''
           \<and> acodec f \<noteq> ''none''
           \<and> (if e \<noteq> [] then ext f = e else True))
        fs)"

text \<open>
  The body of \<^verbatim>\<open>parser(self, ctx)\<close> up to its \<^verbatim>\<open>yield\<close>, with the dictionary
  it yields. The argument of \<^verbatim>\<open>retrieve_audio_format\<close> is evaluated before the
  call, so the KeyError of the merge table comes before the search for an audio format.
\<close>

definition parser_body :: "FormatSelector \<Rightarrow> ctx \<Rightarrow> error + SelectionResult" where
  "parser_body self c =
     (if extension self \<noteq> [] \<and> extension self \<notin> set (concat (map snd EXTENSIONS))
      then Inl (ValueError (''Extension '' @ extension self @ '' is not available.''))
      else
        let fs = rev (ctx_get_formats c) in
        case (if extension self \<in> set EXTENSIONS_audio
              then Inr (''144p'', True)
              else case get_highest_available_quality fs of
                     Inl err \<Rightarrow> Inl err
                   | Inr q \<Rightarrow> Inr (if q \<notin> set RESOLUTIONS then ''1080p'' else q, False)) of
          Inl err \<Rightarrow> Inl err
        | Inr (quality, is_audio) \<Rightarrow>
           (case retrieve_video_format self fs quality [] of
              Inl err \<Rightarrow> Inl err
            | Inr video \<Rightarrow>
               (case (if is_audio then Inr (extension self) else MERGE_getitem (ext video)) of
                  Inl err \<Rightarrow> Inl err
                | Inr audio_extension \<Rightarrow>
                   (case retrieve_audio_format self fs audio_extension of
                      Inl err \<Rightarrow> Inl err
                    | Inr audio \<Rightarrow>
                        Inr \<lparr>sel_format_id = format_id video @ ''+'' @ format_id audio,
                             sel_ext = ext video,
                             requested_formats = (video, audio),
                             sel_protocol = protocol video @ ''+'' @ protocol audio\<rparr>))))"

text \<open>
  An exception on its way out of the body of a generator: StopIteration becomes
  RuntimeError, every other exception passes.
\<close>

fun generator_raises :: "error \<Rightarrow> error" where
  "generator_raises StopIteration = RuntimeError ''generator raised StopIteration''"
| "generator_raises err = err"

text \<open>
  \<^verbatim>\<open>parser(self, ctx)\<close> is a generator that yields one dictionary. The model is
  what the caller gets when it asks the generator for its first item: the dictionary,
  or the exception as it leaves the generator.
\<close>

definition parser :: "FormatSelector \<Rightarrow> ctx \<Rightarrow> error + SelectionResult" where
  "parser self c =
     (case parser_body self c of
        Inl err \<Rightarrow> Inl (generator_raises err)
      | Inr result \<Rightarrow> Inr result)"

text \<open>
  The specification's \<^verbatim>\<open>select(catalog, requestedExtension)\<close>, as the code performs
  it: \<^verbatim>\<open>Downloader.__init__\<close> builds \<^verbatim>\<open>FormatSelector(self.extension)\<close> and hands
  its \<^verbatim>\<open>parser\<close> to the library, which calls it with the context of the URL.
\<close>

definition select :: "StreamFormat list \<Rightarrow> string \<Rightarrow> error + SelectionResult" where
  "select catalog requested = parser (FormatSelector_init requested) \<lparr>formats = Some catalog\<rparr>"

definition video_only :: "StreamFormat \<Rightarrow> bool" where
  "video_only f = (vcodec f \<noteq> ''none'' \<and> acodec f = ''none'')"

definition audio_only :: "StreamFormat \<Rightarrow> bool" where
  "audio_only f = (vcodec f = ''none'' \<and> acodec f \<noteq> ''none'')"




subsection \<open>The parser with the objects it can reach\<close>






subsection \<open>Downloader\<close>

record Downloader =
  url :: string
  dl_extension :: string
  storage :: string
  banned :: "string list"
  formatselector :: FormatSelector
  metadata_title :: "string option"
  file_path :: "string option"

definition Downloader_init :: "string \<Rightarrow> string \<Rightarrow> string \<Rightarrow> bool \<Rightarrow> Downloader" where
  "Downloader_init url_arg extension_arg storage_arg verbose =
     \<lparr>url = url_arg, dl_extension = extension_arg, storage = storage_arg,
      banned = [''porn'', ''xxx''],
      formatselector = FormatSelector_init extension_arg,
      metadata_title = None, file_path = None\<rparr>"

text \<open>\<^verbatim>\<open>s.startswith(p)\<close> and \<^verbatim>\<open>x in s\<close> on strings.\<close>

fun startswith :: "string \<Rightarrow> string \<Rightarrow> bool" where
  "startswith s [] = True"
| "startswith [] (p # ps) = False"
| "startswith (c # cs) (p # ps) = (c = p \<and> startswith cs ps)"

fun str_in :: "string \<Rightarrow> string \<Rightarrow> bool" where
  "str_in x [] = (x = [])"
| "str_in x (c # cs) = (startswith (c # cs) x \<or> str_in x cs)"

text \<open>\<^verbatim>\<open>any(iterable)\<close>\<close>

definition py_any :: "bool list \<Rightarrow> bool" where
  "py_any bs = list_ex (\<lambda>b. b) bs"

definition check_url :: "Downloader \<Rightarrow> string \<Rightarrow> bool" where
  "check_url self u =
     (\<not> py_any ([startswith u ''https'']
                @ map (\<lambda>x. \<not> str_in x u) (banned self)
                @ [str_in ''watch'' u, str_in ''you'' u]))"

text \<open>
  \<^verbatim>\<open>download_video(self, url, processors)\<close>. The answers of the extraction library
  are parameters: the title of the metadata \<^verbatim>\<open>extract_info\<close> returns and the status
  \<^verbatim>\<open>download\<close> returns. The post-processors only configure the library.
\<close>

definition download_video :: "Downloader \<Rightarrow> string \<Rightarrow> string \<Rightarrow> int \<Rightarrow> error + Downloader" where
  "download_video self u title error_code =
     (if check_url self u then Inl (ValueError ''Recieved an invalid URL, stopping...'')
      else if error_code = 1 then Inl (DownloadError ''Video download failed.'')
      else Inr (self\<lparr>metadata_title := Some title,
                     file_path := Some (storage self @ ''/'' @ title @ ''.'' @ dl_extension self)\<rparr>))"

subsection \<open>Sample catalogs\<close>

text \<open>
  Format descriptors as the extraction library reports them, listed worst to best:
  two audio-only streams, a video-only stream at 144p, a combined stream, and
  video-only streams at 720p and 1080p.
\<close>

definition fmt_140 :: StreamFormat where
  "fmt_140 = \<lparr>format_id = ''140'', vcodec = ''none'', acodec = ''mp4a.40.2'',
     ext = ''m4a'', format_note = ''medium'', protocol = ''https''\<rparr>"

definition fmt_251 :: StreamFormat where
  "fmt_251 = \<lparr>format_id = ''251'', vcodec = ''none'', acodec = ''opus'',
     ext = ''webm'', format_note = ''medium'', protocol = ''https''\<rparr>"

definition fmt_160 :: StreamFormat where
  "fmt_160 = \<lparr>format_id = ''160'', vcodec = ''avc1.4d400c'', acodec = ''none'',
     ext = ''mp4'', format_note = ''144p'', protocol = ''https''\<rparr>"

definition fmt_18 :: StreamFormat where
  "fmt_18 = \<lparr>format_id = ''18'', vcodec = ''avc1.42001E'', acodec = ''mp4a.40.2'',
     ext = ''mp4'', format_note = ''360p'', protocol = ''https''\<rparr>"

definition fmt_136 :: StreamFormat where
  "fmt_136 = \<lparr>format_id = ''136'', vcodec = ''avc1.4d401f'', acodec = ''none'',
     ext = ''mp4'', format_note = ''720p'', protocol = ''https''\<rparr>"

definition fmt_137 :: StreamFormat where
  "fmt_137 = \<lparr>format_id = ''137'', vcodec = ''avc1.640028'', acodec = ''none'',
     ext = ''mp4'', format_note = ''1080p'', protocol = ''https''\<rparr>"

text \<open>A video-only stream in a container the merge table does not list.\<close>

definition fmt_mov :: StreamFormat where
  "fmt_mov = \<lparr>format_id = ''v1'', vcodec = ''h264'', acodec = ''none'',
     ext = ''mov'', format_note = ''720p'', protocol = ''https''\<rparr>"


definition catalog_hd :: "StreamFormat list" where
  "catalog_hd = [fmt_140, fmt_251, fmt_160, fmt_18, fmt_136, fmt_137]"



definition catalog_mov :: "StreamFormat list" where
  "catalog_mov = [fmt_140, fmt_mov]"

definition downloader0 :: Downloader where
  "downloader0 = Downloader_init ''https://www.youtube.com/watch?v=abc'' [] ''./temp'' False"

section \<open>Properties\<close>

subsection \<open>Built-ins\<close>

lemma py_next_Inr: "py_next cond xs = Inr x \<Longrightarrow> x \<in> set xs \<and> cond x"
  by (auto simp: py_next_def find_Some_iff split: option.splits)

lemma py_next_Inl:
  "py_next cond xs = Inl e \<Longrightarrow> e = StopIteration \<and> list_all (\<lambda>x. \<not> cond x) xs"
  by (auto simp: py_next_def find_None_iff list_all_iff split: option.splits)


lemma max_key_member: "max_key key best xs \<in> set (best # xs)"
  by (induction xs arbitrary: best) auto

lemma max_key_greatest: "x \<in> set (best # xs) \<Longrightarrow> key x \<le> key (max_key key best xs)"
proof (induction xs arbitrary: best x)
  case Nil
  then show ?case by simp
next
  case (Cons y ys)
  let ?b = "if key best < key y then y else best"
  have step: "key z \<le> key (max_key key ?b ys)" if "z \<in> set (?b # ys)" for z
    using Cons.IH [of z ?b] that by simp
  have "key best \<le> key ?b" and "key y \<le> key ?b" by auto
  moreover have "key ?b \<le> key (max_key key ?b ys)" by (rule step) simp
  ultimately have "key best \<le> key (max_key key ?b ys)" and "key y \<le> key (max_key key ?b ys)"
    by linarith+
  with Cons.prems step show ?case by auto
qed

lemma get_positive_int_range: "0 \<le> get_positive_int s \<and> get_positive_int s \<le> 9"
  by (cases s) (auto simp: digit_value_def split: if_splits)

text \<open>
  The label the code takes for the highest: it exists exactly for a non-empty list, it is
  the label of some format, and no label has a greater first digit.
\<close>

lemma get_highest_available_quality_Inr_iff:
  "(\<exists>h. get_highest_available_quality fs = Inr h) = (fs \<noteq> [])"
  by (cases fs) (simp_all add: get_highest_available_quality_def py_max_def)

lemma get_highest_available_quality_greatest:
  assumes "get_highest_available_quality fs = Inr h"
  shows "h \<in> format_note ` set fs"
    and "f \<in> set fs \<Longrightarrow> get_positive_int (format_note f) \<le> get_positive_int h"
proof -
  from assms obtain g gs where fs: "fs = g # gs"
    and h: "h = max_key get_positive_int (format_note g) (map format_note gs)"
    by (cases fs) (auto simp: get_highest_available_quality_def py_max_def)
  from max_key_member [of get_positive_int "format_note g" "map format_note gs"]
  show "h \<in> format_note ` set fs" unfolding fs h by auto
  assume "f \<in> set fs"
  then have "format_note f \<in> set (format_note g # map format_note gs)" unfolding fs by auto
  from max_key_greatest [OF this] show "get_positive_int (format_note f) \<le> get_positive_int h"
    unfolding h .
qed

lemma MERGE_getitem_Inr:
  "MERGE_getitem k = Inr v \<longleftrightarrow> (k = ''mp4'' \<and> v = ''m4a'') \<or> (k = ''webm'' \<and> v = ''webm'')"
  by (auto simp: MERGE_getitem_def MERGE_def split: if_splits)

lemma MERGE_getitem_Inl:
  "MERGE_getitem k = Inl e \<longleftrightarrow> (k \<noteq> ''mp4'' \<and> k \<noteq> ''webm'' \<and> e = KeyError k)"
  by (auto simp: MERGE_getitem_def MERGE_def split: if_splits)

lemma not_audio_empty: "[] \<notin> set EXTENSIONS_audio"
  by (simp add: EXTENSIONS_audio_def)

subsection \<open>The two searches\<close>

lemma retrieve_video_format_Inr:
  "retrieve_video_format self fs quality ea = Inr v \<Longrightarrow>
     v \<in> set fs \<and> video_only v \<and> format_note v = quality"
  unfolding retrieve_video_format_def Let_def video_only_def
  by (auto dest!: py_next_Inr)

lemma retrieve_video_format_ext:
  "retrieve_video_format self fs quality [] = Inr v \<Longrightarrow> extension self \<noteq> [] \<Longrightarrow>
     ext v = extension self"
  unfolding retrieve_video_format_def Let_def
  by (auto dest!: py_next_Inr)

lemma retrieve_video_format_Inl:
  "retrieve_video_format self fs quality ea = Inl e \<Longrightarrow> e = StopIteration"
  unfolding retrieve_video_format_def Let_def
  by (auto dest!: py_next_Inl)

lemma retrieve_video_format_no_preference:
  "extension self = [] \<Longrightarrow>
     retrieve_video_format self fs quality [] =
       py_next (\<lambda>f. video_only f \<and> format_note f = quality) fs"
  unfolding retrieve_video_format_def Let_def video_only_def
  by (simp add: conj_assoc)

lemma retrieve_audio_format_Inr:
  "retrieve_audio_format self fs ea = Inr a \<Longrightarrow>
     a \<in> set fs \<and> audio_only a \<and> (ea \<noteq> [] \<longrightarrow> ext a = ea)"
  unfolding retrieve_audio_format_def Let_def audio_only_def
  by (auto dest!: py_next_Inr split: if_splits)

lemma retrieve_audio_format_Inl:
  "retrieve_audio_format self fs ea = Inl e \<Longrightarrow> e = StopIteration"
  unfolding retrieve_audio_format_def Let_def
  by (auto dest!: py_next_Inl)


subsection \<open>The parser\<close>

text \<open>What a successful run of the parser has gone through.\<close>

lemma parser_InrD:
  assumes "parser self c = Inr r"
  shows "\<exists>quality video audio_extension audio.
     (extension self = [] \<or> extension self \<in> set (concat (map snd EXTENSIONS)))
   \<and> (if extension self \<in> set EXTENSIONS_audio then quality = ''144p''
       else \<exists>h. get_highest_available_quality (rev (ctx_get_formats c)) = Inr h
              \<and> quality = (if h \<in> set RESOLUTIONS then h else ''1080p''))
   \<and> retrieve_video_format self (rev (ctx_get_formats c)) quality [] = Inr video
   \<and> (if extension self \<in> set EXTENSIONS_audio then audio_extension = extension self
       else MERGE_getitem (ext video) = Inr audio_extension)
   \<and> retrieve_audio_format self (rev (ctx_get_formats c)) audio_extension = Inr audio
   \<and> r = \<lparr>sel_format_id = format_id video @ ''+'' @ format_id audio,
           sel_ext = ext video,
           requested_formats = (video, audio),
           sel_protocol = protocol video @ ''+'' @ protocol audio\<rparr>"
  using assms unfolding parser_def parser_body_def Let_def
  by (auto split: if_splits sum.splits prod.splits)








text \<open>
  The branches of the parser that read \<^verbatim>\<open>self.extension\<close>, for a selector whose
  attribute has been set to a non-empty string by other means than the constructor.
\<close>

lemma parser_unavailable_extension:
  assumes "extension self \<noteq> []"
    and "extension self \<notin> set [''mp4'', ''webm'', ''mp3'', ''m4a'', ''wav'']"
  shows "parser self c = Inl (ValueError (''Extension '' @ extension self @ '' is not available.''))"
  using assms
  by (simp add: parser_def parser_body_def EXTENSIONS_def EXTENSIONS_video_def EXTENSIONS_audio_def)

lemma parser_audio_request:
  assumes "extension self \<in> set EXTENSIONS_audio" and "parser self c = Inr r"
  shows "format_note (fst (requested_formats r)) = ''144p''
       \<and> video_only (fst (requested_formats r))
       \<and> ext (fst (requested_formats r)) = extension self
       \<and> audio_only (snd (requested_formats r))
       \<and> ext (snd (requested_formats r)) = extension self"
proof -
  from parser_InrD [OF assms(2)] assms(1)
  obtain video audio where
    v: "retrieve_video_format self (rev (ctx_get_formats c)) ''144p'' [] = Inr video" and
    a: "retrieve_audio_format self (rev (ctx_get_formats c)) (extension self) = Inr audio" and
    r: "requested_formats r = (video, audio)"
    by auto
  from assms(1) have ne: "extension self \<noteq> []" by (auto simp: not_audio_empty)
  with retrieve_video_format_Inr [OF v] retrieve_video_format_ext [OF v ne]
    retrieve_audio_format_Inr [OF a] r
  show ?thesis by simp
qed

text \<open>
  Whatever extension is requested, a result of \<open>select\<close> pairs a video-only format
  of the catalog that carries one of the six labels with an audio-only format of the
  catalog.
\<close>

lemma select_Inr_formats:
  assumes "select catalog requested = Inr r"
  shows "format_note (fst (requested_formats r)) \<in> set RESOLUTIONS
       \<and> fst (requested_formats r) \<in> set catalog \<and> video_only (fst (requested_formats r))
       \<and> snd (requested_formats r) \<in> set catalog \<and> audio_only (snd (requested_formats r))"
proof -
  let ?self = "FormatSelector_init requested"
  let ?c = "\<lparr>formats = Some catalog\<rparr>"
  have e: "extension ?self \<notin> set EXTENSIONS_audio"
    by (simp add: FormatSelector_init_def not_audio_empty)
  from assms have p: "parser ?self ?c = Inr r" by (simp add: select_def)
  from parser_InrD [OF p] e
  obtain h video ae audio where
    v: "retrieve_video_format ?self (rev (ctx_get_formats ?c))
          (if h \<in> set RESOLUTIONS then h else ''1080p'') [] = Inr video" and
    a: "retrieve_audio_format ?self (rev (ctx_get_formats ?c)) ae = Inr audio" and
    r: "requested_formats r = (video, audio)"
    by auto
  have "(if h \<in> set RESOLUTIONS then h else ''1080p'') \<in> set RESOLUTIONS"
    by (simp add: RESOLUTIONS_def)
  with retrieve_video_format_Inr [OF v] retrieve_audio_format_Inr [OF a] r
  show ?thesis by (simp add: ctx_get_formats_def)
qed

text \<open>The URL check of a downloader as its constructor builds it.\<close>

lemma check_url_iff:
  "check_url (Downloader_init u0 e s v) u =
     (\<not> startswith u ''https'' \<and> str_in ''porn'' u \<and> str_in ''xxx'' u
       \<and> \<not> str_in ''watch'' u \<and> \<not> str_in ''you'' u)"
  by (auto simp: check_url_def Downloader_init_def py_any_def)

section \<open>The claims of the specification\<close>

text \<open>
  Claim C1: for a catalog with a video-only/audio-only pair, a no-preference selection
  returns the highest canonical quality label present. The code does not: the key of
  the maximum is the first digit of the label only, so \<open>720p\<close> (key 7) ranks above
  \<open>1080p\<close> (key 1). On \<open>catalog_hd\<close>, which holds a video-only 1080p stream and its
  audio partner, the selection is the 720p stream.
\<close>

theorem select_takes_720p_over_1080p:
  "select catalog_hd [] =
     Inr \<lparr>sel_format_id = ''136+140'', sel_ext = ''mp4'',
          requested_formats = (fmt_136, fmt_140), sel_protocol = ''https+https''\<rparr>
   \<and> format_note fmt_136 = ''720p''
   \<and> fmt_137 \<in> set catalog_hd \<and> video_only fmt_137 \<and> format_note fmt_137 = ''1080p''
   \<and> fmt_140 \<in> set catalog_hd \<and> audio_only fmt_140
   \<and> get_positive_int ''1080p'' = 1 \<and> get_positive_int ''720p'' = 7"
  by code_simp

text \<open>
  Claim C2: a request for an audio extension returns the 144p video format and an audio
  format in the requested container. Through the constructor the request is lost: for
  \<open>m4a\<close> and for \<open>webm\<close> the selection on \<open>catalog_hd\<close> is the 720p video with
  the m4a audio, although the catalog holds a video-only 144p stream and an audio-only
  webm stream.
\<close>

theorem select_ignores_audio_request:
  "select catalog_hd ''m4a'' =
     Inr \<lparr>sel_format_id = ''136+140'', sel_ext = ''mp4'',
          requested_formats = (fmt_136, fmt_140), sel_protocol = ''https+https''\<rparr>
   \<and> select catalog_hd ''webm'' = select catalog_hd ''m4a''
   \<and> format_note fmt_136 = ''720p'' \<and> ext fmt_140 = ''m4a''
   \<and> fmt_160 \<in> set catalog_hd \<and> video_only fmt_160 \<and> format_note fmt_160 = ''144p''
   \<and> fmt_251 \<in> set catalog_hd \<and> audio_only fmt_251 \<and> ext fmt_251 = ''webm''"
  by code_simp

text \<open>
  Claim C3: a non-empty extension outside the table of known extensions makes the
  selection fail with the ValueError of line 149. Through the constructor it does not:
  the request \<open>avi\<close> is answered like a request without preference.
\<close>

theorem select_accepts_unknown_extension:
  "''avi'' \<noteq> [] \<and> ''avi'' \<notin> set [''mp4'', ''webm'', ''mp3'', ''m4a'', ''wav'']
   \<and> select catalog_hd ''avi'' =
        Inr \<lparr>sel_format_id = ''136+140'', sel_ext = ''mp4'',
             requested_formats = (fmt_136, fmt_140), sel_protocol = ''https+https''\<rparr>"
  by code_simp

text \<open>
  Claim C4: a URL is refused unless it starts with https, holds no banned word, and
  holds \<open>watch\<close> and \<open>you\<close>. The check of the code is \<^verbatim>\<open>not any(...)\<close>: it
  refuses a URL only when every one of these conditions fails (lemma
  \<open>check_url_iff\<close>). A plain http URL is let through to the download, and so is a URL
  that holds \<open>xxx\<close>.
\<close>

theorem download_video_accepts_http_url:
  "check_url downloader0 ''http://example.com/watch?v=abc'' = False
   \<and> download_video downloader0 ''http://example.com/watch?v=abc'' ''clip'' 0 =
        Inr (downloader0\<lparr>metadata_title := Some ''clip'', file_path := Some ''./temp/clip.''\<rparr>)
   \<and> str_in ''xxx'' ''https://www.youtube.com/watch?v=xxx''
   \<and> check_url downloader0 ''https://www.youtube.com/watch?v=xxx'' = False
   \<and> check_url downloader0 ''https://www.youtube.com/watch?v=abc'' = False"
  by code_simp




text \<open>
  Claim C6: in a selection that is not an audio request, the audio format is in the
  container the merge table pairs with the container of the video format: m4a for
  mp4, webm for webm.
\<close>

theorem parser_merge_table:
  assumes "parser self c = Inr r" and "extension self \<notin> set EXTENSIONS_audio"
  shows "MERGE_getitem (ext (fst (requested_formats r))) = Inr (ext (snd (requested_formats r)))
    \<and> (ext (fst (requested_formats r)) = ''mp4'' \<longrightarrow> ext (snd (requested_formats r)) = ''m4a'')
    \<and> (ext (fst (requested_formats r)) = ''webm'' \<longrightarrow> ext (snd (requested_formats r)) = ''webm'')"
proof -
  from parser_InrD [OF assms(1)] assms(2)
  obtain video ae audio where
    m: "MERGE_getitem (ext video) = Inr ae" and
    a: "retrieve_audio_format self (rev (ctx_get_formats c)) ae = Inr audio" and
    r: "requested_formats r = (video, audio)"
    by auto
  from m have "ae \<noteq> []" by (auto simp: MERGE_getitem_Inr)
  with retrieve_audio_format_Inr [OF a] have "ext audio = ae" by simp
  with m r show ?thesis by (auto simp: MERGE_getitem_Inr)
qed

theorem parser_merge_table_witness:
  "parser (FormatSelector_init []) \<lparr>formats = Some catalog_hd\<rparr> =
     Inr \<lparr>sel_format_id = ''136+140'', sel_ext = ''mp4'',
          requested_formats = (fmt_136, fmt_140), sel_protocol = ''https+https''\<rparr>
   \<and> extension (FormatSelector_init []) \<notin> set EXTENSIONS_audio
   \<and> ext fmt_136 = ''mp4'' \<and> ext fmt_140 = ''m4a''"
proof -
  have p: "parser (FormatSelector_init []) \<lparr>formats = Some catalog_hd\<rparr> =
     Inr \<lparr>sel_format_id = ''136+140'', sel_ext = ''mp4'',
          requested_formats = (fmt_136, fmt_140), sel_protocol = ''https+https''\<rparr>"
    by code_simp
  have n: "extension (FormatSelector_init []) \<notin> set EXTENSIONS_audio"
    by code_simp
  have e: "ext fmt_136 = ''mp4''" by code_simp
  from parser_merge_table [OF p n] e have "ext fmt_140 = ''m4a''" by simp
  with p n e show ?thesis by simp
qed


text \<open>
  Claim C8, as amended: once the URL has passed the check, the download fails with
  DownloadError exactly when the status of the fetch step equals 1; with any other
  status, zero or not, it records the file path and returns.
\<close>

theorem download_video_status:
  assumes "\<not> check_url self u"
  shows "(download_video self u title error_code = Inl (DownloadError ''Video download failed.''))
           = (error_code = 1)
    \<and> (error_code \<noteq> 1 \<longrightarrow>
         download_video self u title error_code =
           Inr (self\<lparr>metadata_title := Some title,
                     file_path := Some (storage self @ ''/'' @ title @ ''.'' @ dl_extension self)\<rparr>))"
  using assms by (simp add: download_video_def)

theorem download_video_status_witness:
  "\<not> check_url downloader0 ''https://www.youtube.com/watch?v=abc''
   \<and> download_video downloader0 ''https://www.youtube.com/watch?v=abc'' ''clip'' 1
        = Inl (DownloadError ''Video download failed.'')
   \<and> download_video downloader0 ''https://www.youtube.com/watch?v=abc'' ''clip'' 2
        \<noteq> Inl (DownloadError ''Video download failed.'')"
proof -
  have a: "\<not> check_url downloader0 ''https://www.youtube.com/watch?v=abc''" by code_simp
  from download_video_status [OF a, of "''clip''" 1]
    download_video_status [OF a, of "''clip''" 2] a
  show ?thesis by simp
qed

text \<open>Claim C8 as stated fails at the non-zero status 2, which passes the check.\<close>

theorem download_video_status_2_passes:
  "(2::int) \<noteq> 0
   \<and> download_video downloader0 ''https://www.youtube.com/watch?v=abc'' ''clip'' 2 =
       Inr (downloader0\<lparr>metadata_title := Some ''clip'', file_path := Some ''./temp/clip.''\<rparr>)"
  by code_simp

text \<open>
  Claim C9: the constructor of the selector stores the empty string whatever extension
  it is given, also when the downloader builds the selector, so a selection through a
  fresh selector is the selection without preference.
\<close>

theorem FormatSelector_init_discards_extension:
  "extension (FormatSelector_init e) = []
   \<and> extension (formatselector (Downloader_init u e s v)) = []
   \<and> parser (FormatSelector_init e) c = parser (FormatSelector_init []) c
   \<and> select catalog e = select catalog []"
  by (simp add: FormatSelector_init_def Downloader_init_def select_def)

text \<open>
  Claim C10: in a selection without preference, when the first video-only format with
  the target label is in a container other than mp4 and webm, the parser raises the
  KeyError of the merge table, with that container as the key.
\<close>

theorem parser_KeyError_outside_merge_table:
  assumes "extension self = []"
    and "get_highest_available_quality (rev (ctx_get_formats c)) = Inr h"
    and "find (\<lambda>f. video_only f \<and> format_note f = (if h \<in> set RESOLUTIONS then h else ''1080p''))
           (rev (ctx_get_formats c)) = Some video"
    and "ext video \<noteq> ''mp4''" and "ext video \<noteq> ''webm''"
  shows "parser self c = Inl (KeyError (ext video))"
proof -
  let ?q = "if h \<in> set RESOLUTIONS then h else ''1080p''"
  have v: "retrieve_video_format self (rev (ctx_get_formats c)) ?q [] = Inr video"
    using assms(1,3) unfolding retrieve_video_format_def py_next_def video_only_def Let_def
    by (simp add: conj_assoc)
  have k: "MERGE_getitem (ext video) = Inl (KeyError (ext video))"
    using assms(4,5) by (simp add: MERGE_getitem_Inl)
  show ?thesis
    unfolding parser_def parser_body_def Let_def using assms(1,2) v k
    by (auto simp: not_audio_empty split: if_splits)
qed

theorem parser_KeyError_outside_merge_table_witness:
  "extension (FormatSelector_init []) = []
   \<and> get_highest_available_quality (rev (ctx_get_formats \<lparr>formats = Some catalog_mov\<rparr>)) = Inr ''720p''
   \<and> find (\<lambda>f. video_only f \<and> format_note f = ''720p'')
        (rev (ctx_get_formats \<lparr>formats = Some catalog_mov\<rparr>)) = Some fmt_mov
   \<and> ext fmt_mov = ''mov''
   \<and> parser (FormatSelector_init []) \<lparr>formats = Some catalog_mov\<rparr> = Inl (KeyError ''mov'')"
proof -
  have a: "extension (FormatSelector_init []) = []" by code_simp
  have b: "get_highest_available_quality (rev (ctx_get_formats \<lparr>formats = Some catalog_mov\<rparr>))
             = Inr ''720p''"
    by code_simp
  have q: "(if ''720p'' \<in> set RESOLUTIONS then ''720p'' else ''1080p'') = ''720p''"
    by code_simp
  have f: "find (\<lambda>f. video_only f \<and> format_note f = ''720p'')
        (rev (ctx_get_formats \<lparr>formats = Some catalog_mov\<rparr>)) = Some fmt_mov"
    by code_simp
  have e: "ext fmt_mov = ''mov''" by code_simp
  from parser_KeyError_outside_merge_table [OF a b, of fmt_mov] q f e
  have "parser (FormatSelector_init []) \<lparr>formats = Some catalog_mov\<rparr> = Inl (KeyError ''mov'')"
    by simp
  with a b f e show ?thesis by simp
qed

end
